theory Spec2Isabelle
  imports Complex_Main "HOL-Library.Sublist"
begin

section \<open>Python strings\<close>

text \<open>
  Python \<open>str\<close> values are modelled as Isabelle strings over ASCII characters.  The
  functions below follow the built-in string methods the ingestion code calls:
  \<open>str.replace\<close>, \<open>str.split\<close>, \<open>str.upper\<close>, \<open>str.lower\<close>, \<open>str.strip\<close>,
  \<open>str.startswith\<close>/\<open>str.endswith\<close> and \<open>str.join\<close>.  Characters outside ASCII are
  left unchanged by the case conversions.
\<close>

definition is_digit :: "char \<Rightarrow> bool" where
  "is_digit c = (c \<in> set ''0123456789'')"

definition digit_val :: "char \<Rightarrow> nat" where
  "digit_val c = of_char c - 48"

definition is_space :: "char \<Rightarrow> bool" where
  \<comment> \<open>the ASCII characters for which \<open>str.isspace\<close> holds: TAB, LF, VT, FF, CR,
      the separators 28 to 31, and the blank\<close>
  "is_space c = ((of_char c :: nat) \<in> {9, 10, 11, 12, 13, 28, 29, 30, 31, 32})"

definition py_upper_char :: "char \<Rightarrow> char" where
  "py_upper_char c = (let n = (of_char c :: nat) in if 97 \<le> n \<and> n \<le> 122 then char_of (n - 32) else c)"

definition py_lower_char :: "char \<Rightarrow> char" where
  "py_lower_char c = (let n = (of_char c :: nat) in if 65 \<le> n \<and> n \<le> 90 then char_of (n + 32) else c)"

definition py_upper :: "string \<Rightarrow> string" where
  "py_upper s = map py_upper_char s"

definition py_lower :: "string \<Rightarrow> string" where
  "py_lower s = map py_lower_char s"

definition py_strip :: "string \<Rightarrow> string" where
  "py_strip s = rev (dropWhile is_space (rev (dropWhile is_space s)))"

definition startswith :: "string \<Rightarrow> string \<Rightarrow> bool" where
  "startswith s p = prefix p s"

definition endswith :: "string \<Rightarrow> string \<Rightarrow> bool" where
  "endswith s p = suffix p s"

text \<open>
  \<open>s.replace(old, new)\<close> for a non-empty \<open>old\<close>: the occurrences of \<open>old\<close> are found
  from left to right, an occurrence is replaced and the scan resumes behind it (the
  replacement itself is not scanned again).
\<close>

function py_replace :: "string \<Rightarrow> string \<Rightarrow> string \<Rightarrow> string" where
  "py_replace old new [] = []"
| "py_replace old new (c # cs) =
     (if old \<noteq> [] \<and> prefix old (c # cs)
      then new @ py_replace old new (drop (length old) (c # cs))
      else c # py_replace old new cs)"
  by pat_completeness auto
termination
  by (relation "measure (\<lambda>(old, new, s). length s)") auto

text \<open>\<open>s.split(sep)\<close> for a one-character separator: never an empty list.\<close>

fun py_split :: "char \<Rightarrow> string \<Rightarrow> string list" where
  "py_split sep [] = [[]]"
| "py_split sep (c # cs) =
     (if c = sep then [] # py_split sep cs
      else (case py_split sep cs of
              [] \<Rightarrow> [[c]]
            | p # ps \<Rightarrow> (c # p) # ps))"

text \<open>\<open>sep.join(xs)\<close>.\<close>

fun py_join :: "string \<Rightarrow> string list \<Rightarrow> string" where
  "py_join sep [] = []"
| "py_join sep [x] = x"
| "py_join sep (x # y # ys) = x @ sep @ py_join sep (y # ys)"

text \<open>\<open>str(n)\<close> for a non-negative integer \<open>n\<close>.\<close>

definition digit_char :: "nat \<Rightarrow> char" where
  "digit_char n = ''0123456789'' ! (n mod 10)"

function str_nat :: "nat \<Rightarrow> string" where
  "str_nat n = (if n < 10 then [digit_char n] else str_nat (n div 10) @ [digit_char n])"
  by pat_completeness auto
termination
  by (relation "measure id") auto

text \<open>The value of a string of decimal digits, \<open>int(s)\<close>.\<close>

definition nat_of_digits :: "string \<Rightarrow> nat" where
  "nat_of_digits s = foldl (\<lambda>acc c. 10 * acc + digit_val c) 0 s"

section \<open>Dates and \<open>datetime.strptime(s, '%Y%m%d')\<close>\<close>

record date =
  year :: nat
  month :: nat
  day :: nat

definition is_leap :: "nat \<Rightarrow> bool" where
  "is_leap y = (y mod 4 = 0 \<and> (y mod 100 \<noteq> 0 \<or> y mod 400 = 0))"

definition days_in_month :: "nat \<Rightarrow> nat \<Rightarrow> nat" where
  "days_in_month y m =
     (if m = 2 then (if is_leap y then 29 else 28)
      else if m \<in> {4, 6, 9, 11} then 30 else 31)"

text \<open>
  \<open>datetime.date(y, m, d)\<close> raises \<open>ValueError\<close> unless \<open>1 \<le> y \<le> 9999\<close>,
  \<open>1 \<le> m \<le> 12\<close> and \<open>1 \<le> d \<le>\<close> the length of the month.
\<close>

definition valid_date :: "nat \<Rightarrow> nat \<Rightarrow> nat \<Rightarrow> bool" where
  "valid_date y m d =
     (1 \<le> y \<and> y \<le> 9999 \<and> 1 \<le> m \<and> m \<le> 12 \<and> 1 \<le> d \<and> d \<le> days_in_month y m)"

definition make_date :: "nat \<Rightarrow> nat \<Rightarrow> nat \<Rightarrow> date option" where
  "make_date y m d =
     (if valid_date y m d then Some \<lparr>year = y, month = m, day = d\<rparr> else None)"

text \<open>
  \<open>strptime\<close> turns the format \<open>%Y%m%d\<close> into the regular expression
  \<^verbatim>\<open>(?P<Y>\d\d\d\d)(?P<m>1[0-2]|0[1-9]|[1-9])(?P<d>3[0-1]|[1-2]\d|0[1-9]|[1-9]| [1-9])\<close>,
  matches it at the start of the string, and raises \<open>ValueError\<close> when there is no
  match or when the match leaves characters unconverted.  \<open>match_m\<close> and \<open>match_d\<close>
  list the ways the month and day groups match, in the order of the alternatives, each
  with the value read and the rest of the string; the regular expression engine takes the
  first combination.
\<close>

definition match_m :: "string \<Rightarrow> (nat \<times> string) list" where
  "match_m s =
     (case s of
        [] \<Rightarrow> []
      | a # r \<Rightarrow>
          (case r of
             [] \<Rightarrow> []
           | b # r' \<Rightarrow>
               (if a = CHR ''1'' \<and> b \<in> set ''012'' then [(10 + digit_val b, r')] else []) @
               (if a = CHR ''0'' \<and> b \<in> set ''123456789'' then [(digit_val b, r')] else [])) @
          (if a \<in> set ''123456789'' then [(digit_val a, r)] else []))"

definition match_d :: "string \<Rightarrow> (nat \<times> string) list" where
  "match_d s =
     (case s of
        [] \<Rightarrow> []
      | a # r \<Rightarrow>
          (case r of
             [] \<Rightarrow> []
           | b # r' \<Rightarrow>
               (if a = CHR ''3'' \<and> b \<in> set ''01'' then [(30 + digit_val b, r')] else []) @
               (if a \<in> set ''12'' \<and> is_digit b then [(10 * digit_val a + digit_val b, r')] else []) @
               (if a = CHR ''0'' \<and> b \<in> set ''123456789'' then [(digit_val b, r')] else [])) @
          (if a \<in> set ''123456789'' then [(digit_val a, r)] else []) @
          (case r of
             [] \<Rightarrow> []
           | b # r' \<Rightarrow>
               (if a = CHR '' '' \<and> b \<in> set ''123456789'' then [(digit_val b, r')] else [])))"

definition strptime_Ymd :: "string \<Rightarrow> date option" where
  "strptime_Ymd s =
     (if length s < 4 \<or> \<not> list_all is_digit (take 4 s) then None
      else
        (case concat (map (\<lambda>(m, r). map (\<lambda>(d, r'). (m, d, r')) (match_d r)) (match_m (drop 4 s))) of
           [] \<Rightarrow> None
         | (m, d, rest) # _ \<Rightarrow>
             if rest \<noteq> [] then None else make_date (nat_of_digits (take 4 s)) m d))"

text \<open>\<open>str(d)\<close> for a date: the ISO form \<open>YYYY-MM-DD\<close>.\<close>

definition pad_nat :: "nat \<Rightarrow> nat \<Rightarrow> string" where
  "pad_nat w n = replicate (w - length (str_nat n)) CHR ''0'' @ str_nat n"

definition str_date :: "date \<Rightarrow> string" where
  "str_date d = pad_nat 4 (year d) @ ''-'' @ pad_nat 2 (month d) @ ''-'' @ pad_nat 2 (day d)"

section \<open>Exceptions\<close>

text \<open>
  The exceptions the ingestion code raises or lets escape, each with the text that
  \<open>str(e)\<close> gives.
\<close>

datatype exn =
    ValueError string
  | AttributeError string
  | OverflowError string
  | OSError string
  | KeyError string

fun str_exn :: "exn \<Rightarrow> string" where
  "str_exn (ValueError m) = m"
| "str_exn (AttributeError m) = m"
| "str_exn (OverflowError m) = m"
| "str_exn (OSError m) = m"
| "str_exn (KeyError m) = m"

section \<open>The exchange registry and the filename parser\<close>

text \<open>
  \<open>CSVProcessor.EXCHANGE_MAPPINGS\<close> is a dictionary from exchange code to a dictionary
  from CSV column to database field; both keep insertion order, so they are association
  lists here.  \<open>SUPPORTED_EXCHANGES\<close> is the list of its keys.  Both are class
  attributes that \<open>add_exchange_support\<close> changes at run time, so the functions that read
  them take the registry as an argument.
\<close>

type_synonym column_mapping = "(string \<times> string) list"

record registry =
  EXCHANGE_MAPPINGS :: "(string \<times> column_mapping) list"
  SUPPORTED_EXCHANGES :: "string list"

definition BSE_mapping :: column_mapping where
  "BSE_mapping =
     [(''SC_CODE'', ''stock_symbol''),
      (''SC_NAME'', ''stock_name''),
      (''SC_GROUP'', ''stock_group''),
      (''SC_TYPE'', ''stock_type''),
      (''OPEN'', ''open_price''),
      (''HIGH'', ''high_price''),
      (''LOW'', ''low_price''),
      (''CLOSE'', ''close_price''),
      (''LAST'', ''last_price''),
      (''PREVCLOSE'', ''prev_close_price''),
      (''NO_TRADES'', ''number_of_trades''),
      (''NO_OF_SHRS'', ''number_of_shares''),
      (''NET_TURNOV'', ''net_turnover''),
      (''TDCLOINDI'', ''ignore'')]"

definition NSE_mapping :: column_mapping where
  "NSE_mapping =
     [(''SYMBOL'', ''stock_symbol''),
      (''SERIES'', ''stock_group''),
      (''OPEN'', ''open_price''),
      (''HIGH'', ''high_price''),
      (''LOW'', ''low_price''),
      (''CLOSE'', ''close_price''),
      (''LAST'', ''last_price''),
      (''PREVCLOSE'', ''prev_close_price''),
      (''TOTTRDQTY'', ''number_of_shares''),
      (''TOTTRDVAL'', ''net_turnover''),
      (''TIMESTAMP'', ''timestamp''),
      (''TOTALTRADES'', ''number_of_trades''),
      (''ISIN'', ''ignore'')]"

definition initial_registry :: registry where
  "initial_registry =
     \<lparr>EXCHANGE_MAPPINGS = [(''BSE'', BSE_mapping), (''NSE'', NSE_mapping)],
      SUPPORTED_EXCHANGES = [''BSE'', ''NSE'']\<rparr>"

text \<open>Assignment \<open>d[k] = v\<close> to an insertion-ordered dictionary.\<close>

fun dict_set :: "'k \<Rightarrow> 'v \<Rightarrow> ('k \<times> 'v) list \<Rightarrow> ('k \<times> 'v) list" where
  "dict_set k v [] = [(k, v)]"
| "dict_set k v ((k', v') # kvs) =
     (if k' = k then (k, v) # kvs else (k', v') # dict_set k v kvs)"

definition add_exchange_support :: "string \<Rightarrow> column_mapping \<Rightarrow> registry \<Rightarrow> registry" where
  "add_exchange_support exchange_name column_mapping reg =
     (let exchange_name = py_upper exchange_name
      in reg\<lparr>EXCHANGE_MAPPINGS := dict_set exchange_name column_mapping (EXCHANGE_MAPPINGS reg),
             SUPPORTED_EXCHANGES :=
               (if exchange_name \<notin> set (SUPPORTED_EXCHANGES reg)
                then SUPPORTED_EXCHANGES reg @ [exchange_name]
                else SUPPORTED_EXCHANGES reg)\<rparr>)"

definition get_exchange_columns :: "registry \<Rightarrow> string \<Rightarrow> string list" where
  "get_exchange_columns reg exchange =
     (case map_of (EXCHANGE_MAPPINGS reg) (py_upper exchange) of
        None \<Rightarrow> []
      | Some m \<Rightarrow> map fst m)"

text \<open>
  \<open>parse_filename\<close>: every exception raised inside is caught and raised again as a
  \<open>ValueError\<close> whose message names the file.
\<close>

definition strip_extension :: "string \<Rightarrow> string" where
  "strip_extension filename = py_replace ''.CSV'' [] (py_replace ''.csv'' [] filename)"

definition parse_filename_body :: "registry \<Rightarrow> string \<Rightarrow> exn + (date \<times> string)" where
  "parse_filename_body reg filename =
     (let name_without_ext = strip_extension filename;
          parts = py_split CHR ''_'' name_without_ext
      in case parts of
           [date_str, exchange] \<Rightarrow>
             if length date_str \<noteq> 8
             then Inl (ValueError (''Date part must be 8 digits (YYYYMMDD), got: '' @ date_str))
             else
               (case strptime_Ymd date_str of
                  None \<Rightarrow> Inl (ValueError (''Invalid date format in filename: '' @ date_str))
                | Some parsed_date \<Rightarrow>
                    if exchange = [] \<or> length exchange > 10
                    then Inl (ValueError (''Exchange name must be 1-10 characters, got: '' @ exchange))
                    else
                      (let exchange_upper = py_upper exchange
                       in if exchange_upper \<notin> set (SUPPORTED_EXCHANGES reg)
                          then Inl (ValueError (''Unsupported exchange '' @ [CHR 0x27] @ exchange_upper
                                 @ [CHR 0x27] @ ''. Supported exchanges: ''
                                 @ py_join '', '' (SUPPORTED_EXCHANGES reg)))
                          else Inr (parsed_date, exchange_upper)))
         | _ \<Rightarrow>
             Inl (ValueError (''Filename must follow pattern YYYYMMDD_EXCHANGE.csv, got: '' @ filename)))"

definition parse_filename :: "registry \<Rightarrow> string \<Rightarrow> exn + (date \<times> string)" where
  "parse_filename reg filename =
     (case parse_filename_body reg filename of
        Inl e \<Rightarrow>
          Inl (ValueError (''Error parsing filename '' @ [CHR 0x27] @ filename @ [CHR 0x27]
                 @ '': '' @ str_exn e))
      | Inr r \<Rightarrow> Inr r)"

section \<open>Python numbers: \<open>float(s)\<close>, \<open>int(x)\<close> and \<open>Decimal(s)\<close>\<close>

text \<open>
  A decimal literal, as both \<open>float\<close> and \<open>Decimal\<close> read it: digits with an optional
  point and at least one digit before or behind it, then an optional exponent \<open>e\<close> or
  \<open>E\<close> with an optional sign and at least one digit.  The result is the integer digits,
  the fraction digits and the exponent; \<open>None\<close> when the string is not such a literal.
\<close>

definition parse_exponent :: "string \<Rightarrow> int option" where
  "parse_exponent s =
     (case s of
        [] \<Rightarrow> Some 0
      | c # r \<Rightarrow>
          if c \<in> set ''eE'' then
            (let neg = (r \<noteq> [] \<and> hd r = CHR ''-'');
                 ds = (if r \<noteq> [] \<and> hd r \<in> set ''+-'' then tl r else r)
             in if ds \<noteq> [] \<and> list_all is_digit ds
                then Some (if neg then - int (nat_of_digits ds) else int (nat_of_digits ds))
                else None)
          else None)"

definition parse_decimal_literal :: "string \<Rightarrow> (string \<times> string \<times> int) option" where
  "parse_decimal_literal s =
     (let ip = takeWhile is_digit s;
          r1 = dropWhile is_digit s;
          has_point = (r1 \<noteq> [] \<and> hd r1 = CHR ''.'');
          fp = (if has_point then takeWhile is_digit (tl r1) else []);
          r2 = (if has_point then dropWhile is_digit (tl r1) else r1)
      in if ip = [] \<and> fp = [] then None
         else (case parse_exponent r2 of
                 None \<Rightarrow> None
               | Some ex \<Rightarrow> Some (ip, fp, ex)))"

definition split_sign :: "string \<Rightarrow> bool \<times> string" where
  "split_sign s =
     (case s of
        [] \<Rightarrow> (False, [])
      | c # r \<Rightarrow> if c = CHR ''-'' then (True, r) else if c = CHR ''+'' then (False, r) else (False, s))"

text \<open>
  A Python float is a binary64 value: a finite rational, an infinity or a NaN (the sign of
  a zero is not kept; \<open>int\<close> does not see it).  \<open>binary64\<close> rounds a rational to the
  nearest binary64 value, ties to even, and to an infinity when the rounded value reaches
  \<open>2^1024\<close> (the exponent \<open>e\<close> is 1024 or more, or it is 1023 and the significand
  rounds up to \<open>2^53\<close>), as the correctly rounded conversion of \<open>float(s)\<close> does.
\<close>

datatype pyfloat = Finite rat | PosInf | NegInf | NaN

function bit_length :: "nat \<Rightarrow> nat" where
  "bit_length n = (if n = 0 then 0 else Suc (bit_length (n div 2)))"
  by pat_completeness auto
termination
  by (relation "measure id") auto

definition pow2 :: "int \<Rightarrow> rat" where
  "pow2 k = (if 0 \<le> k then 2 ^ nat k else 1 / 2 ^ nat (- k))"

definition pow10 :: "int \<Rightarrow> rat" where
  "pow10 k = (if 0 \<le> k then 10 ^ nat k else 1 / 10 ^ nat (- k))"

definition floor_log2 :: "rat \<Rightarrow> int" where
  \<comment> \<open>for \<open>a > 0\<close>, the integer \<open>e\<close> with \<open>2^e \<le> a < 2^(e+1)\<close>\<close>
  "floor_log2 a =
     (if 1 \<le> a then int (bit_length (nat \<lfloor>a\<rfloor>)) - 1
      else (let k = int (bit_length (nat \<lfloor>1 / a\<rfloor>)) - 1
            in if 1 / a = pow2 k then - k else - k - 1))"

definition round_half_even :: "rat \<Rightarrow> int" where
  "round_half_even x =
     (let f = \<lfloor>x\<rfloor>; d = x - of_int f
      in if d < 1 / 2 then f else if 1 / 2 < d then f + 1 else if even f then f else f + 1)"

definition binary64 :: "rat \<Rightarrow> pyfloat" where
  "binary64 r =
     (if r = 0 then Finite 0
      else
        (let a = \<bar>r\<bar>;
             e = max (floor_log2 a) (- 1022);
             q = pow2 (e - 52);
             n = round_half_even (a / q);
             v = of_int n * q
         in if 1024 \<le> e \<or> (e = 1023 \<and> n = 2 ^ 53) then (if 0 < r then PosInf else NegInf)
            else Finite (if 0 < r then v else - v)))"

text \<open>
  \<open>float(s)\<close> removes surrounding whitespace, accepts single underscores between digits,
  and then reads a sign followed by \<open>inf\<close>, \<open>infinity\<close> or \<open>nan\<close> (in any letter case) or
  by a decimal literal.  \<open>None\<close> stands for the \<open>ValueError\<close> it raises otherwise.
  \<open>check_underscores\<close> is the loop of the interpreter that validates and removes the
  underscores, with the previous character as its state.
\<close>

fun check_underscores :: "char \<Rightarrow> string \<Rightarrow> string option" where
  "check_underscores prev [] = (if prev = CHR ''_'' then None else Some [])"
| "check_underscores prev (c # cs) =
     (if c = CHR ''_'' then (if is_digit prev then check_underscores c cs else None)
      else if prev = CHR ''_'' \<and> \<not> is_digit c then None
      else map_option ((#) c) (check_underscores c cs))"

definition py_float :: "string \<Rightarrow> pyfloat option" where
  "py_float s =
     (case check_underscores (CHR 0x00) (py_strip s) of
        None \<Rightarrow> None
      | Some t \<Rightarrow>
          (let (neg, body) = split_sign t
           in if py_lower body \<in> {''inf'', ''infinity''} then Some (if neg then NegInf else PosInf)
              else if py_lower body = ''nan'' then Some NaN
              else (case parse_decimal_literal body of
                      None \<Rightarrow> None
                    | Some (ip, fp, ex) \<Rightarrow>
                        (let v = of_nat (nat_of_digits (ip @ fp)) * pow10 (ex - int (length fp))
                         in Some (binary64 (if neg then - v else v))))))"

text \<open>\<open>int(x)\<close> for a float: truncation towards zero; an infinity and a NaN raise.\<close>

definition int_of_float :: "pyfloat \<Rightarrow> exn + int" where
  "int_of_float x =
     (case x of
        Finite r \<Rightarrow> Inr (if 0 \<le> r then \<lfloor>r\<rfloor> else \<lceil>r\<rceil>)
      | PosInf \<Rightarrow> Inl (OverflowError ''cannot convert float infinity to integer'')
      | NegInf \<Rightarrow> Inl (OverflowError ''cannot convert float infinity to integer'')
      | NaN \<Rightarrow> Inl (ValueError ''cannot convert float NaN to integer''))"

text \<open>
  A \<open>Decimal\<close> is a sign, a coefficient and an exponent, or an infinity, or a quiet or
  signalling NaN with a payload.  \<open>Decimal(s)\<close> removes surrounding whitespace and all
  underscores and converts exactly; \<open>None\<close> stands for the \<open>InvalidOperation\<close> it raises
  on any other string.
\<close>

datatype decimal = Dec bool nat int | DecInf bool | DecNaN bool bool nat

definition py_decimal :: "string \<Rightarrow> decimal option" where
  "py_decimal s =
     (let t = filter (\<lambda>c. c \<noteq> CHR ''_'') (py_strip s);
          (neg, body) = split_sign t;
          low = py_lower body
      in if low \<in> {''inf'', ''infinity''} then Some (DecInf neg)
         else if prefix ''nan'' low \<and> list_all is_digit (drop 3 low)
         then Some (DecNaN neg False (nat_of_digits (drop 3 low)))
         else if prefix ''snan'' low \<and> list_all is_digit (drop 4 low)
         then Some (DecNaN neg True (nat_of_digits (drop 4 low)))
         else (case parse_decimal_literal body of
                 None \<Rightarrow> None
               | Some (ip, fp, ex) \<Rightarrow>
                   Some (Dec neg (nat_of_digits (ip @ fp)) (ex - int (length fp)))))"

section \<open>The row validators\<close>

text \<open>
  \<open>validate_decimal\<close> and \<open>validate_integer\<close> append to \<open>self.warnings\<close>; the list of
  warnings is passed in and returned.  \<open>validate_decimal\<close> catches \<open>InvalidOperation\<close> and
  \<open>ValueError\<close>, which covers every failure of \<open>Decimal(s)\<close>.  \<open>validate_integer\<close>
  catches \<open>ValueError\<close> and \<open>TypeError\<close> only, so the \<open>OverflowError\<close> of \<open>int\<close> on an
  infinity escapes; its result is therefore a sum.
\<close>

definition quoted :: "string \<Rightarrow> string" where
  "quoted s = [CHR 0x27] @ s @ [CHR 0x27]"

definition validate_decimal :: "string \<Rightarrow> string \<Rightarrow> string list \<Rightarrow> decimal option \<times> string list" where
  "validate_decimal value field_name warnings =
     (if value = [] \<or> py_strip value = [] then (None, warnings)
      else
        (case py_decimal (py_strip value) of
           Some d \<Rightarrow> (Some d, warnings)
         | None \<Rightarrow>
             (None, warnings @ [''Invalid decimal value for '' @ field_name @ '': '' @ quoted value
                                @ '' - skipping row''])))"

definition validate_integer :: "string \<Rightarrow> string \<Rightarrow> string list \<Rightarrow> exn + (int option \<times> string list)" where
  "validate_integer value field_name warnings =
     (if value = [] \<or> py_strip value = [] then Inr (None, warnings)
      else
        (let invalid = Inr (None, warnings @ [''Invalid integer value for '' @ field_name @ '': ''
                                              @ quoted value @ '' - using None''])
         in case py_float (py_strip value) of
              None \<Rightarrow> invalid
            | Some x \<Rightarrow>
                (case int_of_float x of
                   Inr n \<Rightarrow> Inr (Some n, warnings)
                 | Inl (ValueError m) \<Rightarrow> invalid
                 | Inl e \<Rightarrow> Inl e)))"

section \<open>The persistence layer\<close>

text \<open>
  The tables of \<open>models.py\<close>.  A table with a \<open>unique_together\<close> key is a finite map from
  the key to the other fields: a \<open>Stock\<close> is identified by its symbol and exchange, a
  \<open>Candlestick\<close> by its stock and its \<open>candle_date\<close>, a date and a time of day in
  seconds (the ingestion stores midnight).  \<open>get_or_create\<close> returns the row with the key
  when there is one and inserts the defaults otherwise; it is Django's, and is taken here
  with the contract the ingestion relies on: it never fails.
\<close>

type_synonym stock_key = "string \<times> string"
type_synonym datetime = "date \<times> nat"
type_synonym candle_key = "stock_key \<times> datetime"

record stock =
  stock_name :: string
  stock_group :: string

record candlestick =
  open_price :: decimal
  high_price :: decimal
  low_price :: decimal
  close_price :: decimal
  prev_close_price :: decimal
  number_of_trades :: "int option"
  number_of_shares :: "int option"
  net_turnover :: "decimal option"

record csv_file_record =
  cf_filename :: string
  cf_date :: date
  cf_exchange :: string
  cf_stocks_processed :: nat
  cf_candlesticks_processed :: nat

record db =
  stocks :: "stock_key \<rightharpoonup> stock"
  candlesticks :: "candle_key \<rightharpoonup> candlestick"
  csv_files :: "csv_file_record list"

definition Stock_get_or_create :: "stock_key \<Rightarrow> stock \<Rightarrow> db \<Rightarrow> bool \<times> db" where
  "Stock_get_or_create k defaults d =
     (case stocks d k of
        Some s \<Rightarrow> (False, d)
      | None \<Rightarrow> (True, d\<lparr>stocks := (stocks d)(k \<mapsto> defaults)\<rparr>))"

definition Candlestick_get_or_create :: "candle_key \<Rightarrow> candlestick \<Rightarrow> db \<Rightarrow> bool \<times> db" where
  "Candlestick_get_or_create k defaults d =
     (case candlesticks d k of
        Some c \<Rightarrow> (False, d)
      | None \<Rightarrow> (True, d\<lparr>candlesticks := (candlesticks d)(k \<mapsto> defaults)\<rparr>))"

definition CsvFile_create :: "csv_file_record \<Rightarrow> db \<Rightarrow> db" where
  "CsvFile_create r d = d\<lparr>csv_files := csv_files d @ [r]\<rparr>"

section \<open>Reading the CSV file\<close>

text \<open>
  The file is what \<open>csv.reader\<close> yields for it with the delimiter detected: a list of
  records, each a list of cells, or the exception of opening or reading it.
  \<open>csv.DictReader\<close> takes the first record as the field names, skips empty records, and
  turns every other record into a dictionary: \<open>dict(zip(fieldnames, record))\<close>, the field
  names without a cell mapped to \<open>None\<close> (the \<open>restval\<close>).  A cell of a row is therefore
  \<open>Some s\<close> or \<open>None\<close>.
\<close>

type_synonym csv_row = "string \<rightharpoonup> string option"

definition DictReader_fieldnames :: "string list list \<Rightarrow> string list option" where
  "DictReader_fieldnames recs = (case recs of [] \<Rightarrow> None | h # _ \<Rightarrow> Some h)"

definition DictReader_row :: "string list \<Rightarrow> string list \<Rightarrow> csv_row" where
  "DictReader_row fieldnames cells =
     map_of (rev (zip fieldnames
                   (map Some cells @ replicate (length fieldnames - length cells) None)))"

definition DictReader_rows :: "string list list \<Rightarrow> csv_row list" where
  "DictReader_rows recs =
     (case recs of
        [] \<Rightarrow> []
      | h # rest \<Rightarrow> map (DictReader_row h) (filter (\<lambda>r. r \<noteq> []) rest))"

section \<open>The single-file ingestion engine\<close>

text \<open>
  The counters and message lists of a \<open>CSVProcessor\<close> instance.
\<close>

record processor =
  processed_stocks :: nat
  processed_candlesticks :: nat
  errors :: "string list"
  warnings :: "string list"

type_synonym engine_state = "db \<times> processor"

text \<open>
  A step of the row function runs on a state and returns the raised exception or its
  value, together with the state it leaves behind: what a step wrote before it raised
  stays written.  \<open>then_do\<close> is the sequencing of two statements, \<open>pure\<close> a step
  without effect on the state.
\<close>

definition then_do ::
  "('s \<Rightarrow> (exn + 'a) \<times> 's) \<Rightarrow> ('a \<Rightarrow> 's \<Rightarrow> (exn + 'b) \<times> 's) \<Rightarrow> 's \<Rightarrow> (exn + 'b) \<times> 's" where
  "then_do m f s = (case m s of (Inl e, s') \<Rightarrow> (Inl e, s') | (Inr a, s') \<Rightarrow> f a s')"

definition pure :: "exn + 'a \<Rightarrow> 's \<Rightarrow> (exn + 'a) \<times> 's" where
  "pure r s = (r, s)"

text \<open>
  \<open>get_mapped_value\<close>, the local helper of the row function: the first CSV column mapped
  to the field, then \<open>row.get(csv_column, '').strip()\<close>; the empty string when no column
  (or the column with the empty name) is mapped.  A cell that is \<open>None\<close> has no \<open>strip\<close>.
\<close>

definition get_mapped_value :: "column_mapping \<Rightarrow> csv_row \<Rightarrow> string \<Rightarrow> exn + string" where
  "get_mapped_value csv_columns row db_field =
     (case find (\<lambda>(csv_col, db_field_mapped). db_field_mapped = db_field) csv_columns of
        None \<Rightarrow> Inr []
      | Some (csv_column, _) \<Rightarrow>
          if csv_column = [] then Inr []
          else
            (case row csv_column of
               None \<Rightarrow> Inr (py_strip [])
             | Some None \<Rightarrow>
                 Inl (AttributeError (quoted ''NoneType'' @ '' object has no attribute '' @ quoted ''strip''))
             | Some (Some v) \<Rightarrow> Inr (py_strip v)))"

definition symbol_column :: "column_mapping \<Rightarrow> string" where
  "symbol_column csv_columns =
     (case find (\<lambda>(col, field). field = ''stock_symbol'') csv_columns of
        None \<Rightarrow> ''SYMBOL''
      | Some (col, _) \<Rightarrow> col)"

definition mapped_decimal ::
  "column_mapping \<Rightarrow> csv_row \<Rightarrow> string \<Rightarrow> string \<Rightarrow> string list \<Rightarrow> (exn + decimal option) \<times> string list" where
  \<comment> \<open>\<open>self.validate_decimal(get_mapped_value(db_field), field_name)\<close>, on \<open>self.warnings\<close>\<close>
  "mapped_decimal csv_columns row db_field field_name =
     then_do (pure (get_mapped_value csv_columns row db_field))
       (\<lambda>v w. case validate_decimal v field_name w of (r, w') \<Rightarrow> (Inr r, w'))"

definition mapped_integer ::
  "column_mapping \<Rightarrow> csv_row \<Rightarrow> string \<Rightarrow> string \<Rightarrow> string list \<Rightarrow> (exn + int option) \<times> string list" where
  \<comment> \<open>\<open>self.validate_integer(get_mapped_value(db_field), field_name)\<close>, on \<open>self.warnings\<close>\<close>
  "mapped_integer csv_columns row db_field field_name =
     then_do (pure (get_mapped_value csv_columns row db_field))
       (\<lambda>v w. case validate_integer v field_name w of
                  Inl e \<Rightarrow> (Inl e, w)
                | Inr (r, w') \<Rightarrow> (Inr r, w'))"

definition required_prices ::
  "decimal option \<Rightarrow> decimal option \<Rightarrow> decimal option \<Rightarrow> decimal option \<Rightarrow> decimal option
    \<Rightarrow> exn + (decimal \<times> decimal \<times> decimal \<times> decimal \<times> decimal)" where
  \<comment> \<open>\<open>if any(price is None for price in required_prices): raise ValueError(...)\<close>\<close>
  "required_prices open_p high_p low_p close_p prev_close_p =
     (case (open_p, high_p, low_p, close_p, prev_close_p) of
        (Some op, Some hp, Some lp, Some cp, Some pp) \<Rightarrow> Inr (op, hp, lp, cp, pp)
      | _ \<Rightarrow> Inl (ValueError ''Missing required price data''))"

text \<open>
  \<open>CSVProcessor._process_row\<close> in its two parts.  The first part, up to the validation
  of the trade data, reads and validates the cells; of the state it touches
  \<open>self.warnings\<close> only, and it yields the stock symbol and the field values of the
  \<open>Stock\<close> and of the \<open>Candlestick\<close>.
\<close>

definition read_row ::
  "column_mapping \<Rightarrow> csv_row \<Rightarrow> string \<Rightarrow> string list
    \<Rightarrow> (exn + (string \<times> stock \<times> candlestick)) \<times> string list" where
  "read_row csv_columns row exchange =
     then_do (pure (get_mapped_value csv_columns row ''stock_symbol'')) (\<lambda>stock_symbol.
     then_do (pure (get_mapped_value csv_columns row ''stock_group'')) (\<lambda>stock_group.
     then_do (pure (if exchange = ''NSE'' then Inr stock_symbol
                    else get_mapped_value csv_columns row ''stock_name'')) (\<lambda>stock_name.
     then_do (pure (if stock_symbol = []
                    then Inl (ValueError (symbol_column csv_columns @ '' (stock symbol) is required''))
                    else Inr ())) (\<lambda>_.
     then_do (mapped_decimal csv_columns row ''open_price'' ''OPEN'') (\<lambda>open_price.
     then_do (mapped_decimal csv_columns row ''high_price'' ''HIGH'') (\<lambda>high_price.
     then_do (mapped_decimal csv_columns row ''low_price'' ''LOW'') (\<lambda>low_price.
     then_do (mapped_decimal csv_columns row ''close_price'' ''CLOSE'') (\<lambda>close_price.
     then_do (mapped_decimal csv_columns row ''prev_close_price'' ''PREVCLOSE'') (\<lambda>prev_close_price.
     then_do (pure (required_prices open_price high_price low_price close_price prev_close_price))
       (\<lambda>prices.
     then_do (mapped_integer csv_columns row ''number_of_trades'' ''number_of_trades'') (\<lambda>trades.
     then_do (mapped_integer csv_columns row ''number_of_shares'' ''number_of_shares'') (\<lambda>shares.
     then_do (mapped_decimal csv_columns row ''net_turnover'' ''net_turnover'') (\<lambda>turnover.
       pure (Inr (stock_symbol,
                  \<lparr>stock_name = stock_name, stock_group = stock_group\<rparr>,
                  (case prices of
                     (op, hp, lp, cp, pp) \<Rightarrow>
                       \<lparr>open_price = op, high_price = hp, low_price = lp, close_price = cp,
                        prev_close_price = pp, number_of_trades = trades,
                        number_of_shares = shares, net_turnover = turnover\<rparr>))))))))))))))))"

text \<open>The second part: the two \<open>get_or_create\<close> calls with their counters.\<close>

definition store_row ::
  "string \<Rightarrow> string \<Rightarrow> stock \<Rightarrow> date \<Rightarrow> candlestick \<Rightarrow> engine_state \<Rightarrow> engine_state" where
  "store_row stock_symbol exchange stock_defaults candle_date candle_defaults =
     (\<lambda>(d, p).
        case Stock_get_or_create (stock_symbol, exchange) stock_defaults d of
          (created, d1) \<Rightarrow>
            (let p1 = (if created then p\<lparr>processed_stocks := processed_stocks p + 1\<rparr> else p)
             in case Candlestick_get_or_create ((stock_symbol, exchange), (candle_date, 0)) candle_defaults d1 of
                  (created', d2) \<Rightarrow>
                    (d2,
                     if created' then p1\<lparr>processed_candlesticks := processed_candlesticks p1 + 1\<rparr>
                     else p1\<lparr>warnings := warnings p1 @
                            [''Duplicate candlestick data for '' @ stock_symbol @ '' on ''
                             @ str_date candle_date @ '' - skipped'']\<rparr>)))"

definition process_row ::
  "column_mapping \<Rightarrow> csv_row \<Rightarrow> date \<Rightarrow> string \<Rightarrow> engine_state \<Rightarrow> exn option \<times> engine_state" where
  "process_row csv_columns row candle_date exchange =
     (\<lambda>(d, p).
        case read_row csv_columns row exchange (warnings p) of
          (Inl e, w) \<Rightarrow> (Some e, (d, p\<lparr>warnings := w\<rparr>))
        | (Inr (stock_symbol, stock_defaults, candle_defaults), w) \<Rightarrow>
            (None, store_row stock_symbol exchange stock_defaults candle_date candle_defaults
                     (d, p\<lparr>warnings := w\<rparr>)))"

text \<open>
  The row loop of \<open>process_csv_file\<close>: \<open>row_number\<close> starts at 1 and is incremented
  before each row, so the first data row is row 2.  An exception of a row becomes an
  entry of \<open>self.errors\<close> and the loop goes on.
\<close>

fun process_rows ::
  "column_mapping \<Rightarrow> date \<Rightarrow> string \<Rightarrow> nat \<Rightarrow> csv_row list \<Rightarrow> engine_state \<Rightarrow> engine_state" where
  "process_rows csv_columns candle_date exchange row_number [] s = s"
| "process_rows csv_columns candle_date exchange row_number (row # rows) s =
     (let row_number = row_number + 1
      in case process_row csv_columns row candle_date exchange s of
           (None, s') \<Rightarrow> process_rows csv_columns candle_date exchange row_number rows s'
         | (Some e, (d, p)) \<Rightarrow>
             process_rows csv_columns candle_date exchange row_number rows
               (d, p\<lparr>errors := errors p @ [''Row '' @ str_nat row_number @ '': '' @ str_exn e]\<rparr>))"

text \<open>
  The dictionary \<open>process_csv_file\<close> returns.  The keys \<open>error\<close>, \<open>date\<close> and \<open>exchange\<close>
  are present in one of the two shapes only, hence optional here.
\<close>

record result =
  success :: bool
  error :: "string option"
  stocks_processed :: nat
  candlesticks_processed :: nat
  result_errors :: "string list"
  result_warnings :: "string list"
  result_date :: "date option"
  result_exchange :: "string option"

definition new_processor :: processor where
  "new_processor = \<lparr>processed_stocks = 0, processed_candlesticks = 0, errors = [], warnings = []\<rparr>"

definition failure :: "exn \<Rightarrow> processor \<Rightarrow> result" where
  "failure e p =
     \<lparr>success = False, error = Some (str_exn e),
      stocks_processed = processed_stocks p, candlesticks_processed = processed_candlesticks p,
      result_errors = errors p, result_warnings = warnings p,
      result_date = None, result_exchange = None\<rparr>"

definition missing_headers :: "column_mapping \<Rightarrow> string list \<Rightarrow> string list" where
  \<comment> \<open>\<open>expected_headers - actual_headers\<close>; listed in the order of the mapping's keys (the
      order in which Python iterates the set is not specified)\<close>
  "missing_headers csv_columns actual =
     filter (\<lambda>c. c \<notin> set actual) (remdups (map fst csv_columns))"

definition process_csv_file ::
  "registry \<Rightarrow> db \<Rightarrow> exn + string list list \<Rightarrow> string \<Rightarrow> result \<times> db" where
  "process_csv_file reg d file filename =
     (let p = new_processor
      in case parse_filename reg filename of
           Inl e \<Rightarrow> (failure e p, d)
         | Inr (candle_date, exchange) \<Rightarrow>
             (case map_of (EXCHANGE_MAPPINGS reg) exchange of
                None \<Rightarrow> (failure (ValueError (''No column mapping found for exchange: '' @ exchange)) p, d)
              | Some csv_columns \<Rightarrow>
                  if csv_columns = []
                  then (failure (ValueError (''No column mapping found for exchange: '' @ exchange)) p, d)
                  else
                    (case file of
                       Inl e \<Rightarrow> (failure e p, d)
                     | Inr recs \<Rightarrow>
                         (let actual_headers = (case DictReader_fieldnames recs of None \<Rightarrow> [] | Some h \<Rightarrow> h);
                              missing = missing_headers csv_columns actual_headers
                          in if missing \<noteq> []
                             then (failure (ValueError (''Missing required columns for '' @ exchange
                                              @ '' exchange: '' @ py_join '', '' missing)) p, d)
                             else
                               (case process_rows csv_columns candle_date exchange 1
                                       (DictReader_rows recs) (d, p) of
                                  (d', p') \<Rightarrow>
                                    (\<lparr>success = True, error = None,
                                      stocks_processed = processed_stocks p',
                                      candlesticks_processed = processed_candlesticks p',
                                      result_errors = errors p', result_warnings = warnings p',
                                      result_date = Some candle_date,
                                      result_exchange = Some exchange\<rparr>, d'))))))"

section \<open>The archive ingestion orchestrator\<close>

text \<open>
  An uploaded archive is its name and what extracting it and walking the extraction
  directory give: the exception of the extraction, or the files in walk order, each with
  its bare name and its content as \<open>process_csv_file\<close> takes it.
\<close>

record zip_upload =
  zip_name :: string
  zip_contents :: "exn + (string \<times> (exn + string list list)) list"

record processed_file =
  pf_filename :: string
  pf_date :: date
  pf_exchange :: string
  pf_stocks_processed :: nat
  pf_candlesticks_processed :: nat
  pf_warnings :: "string list"

record failed_file =
  ff_filename :: string
  ff_error :: string
  ff_stocks_processed :: nat
  ff_candlesticks_processed :: nat

record bulk_processor =
  processed_files :: "processed_file list"
  failed_files :: "failed_file list"
  total_stocks :: nat
  total_candlesticks :: nat
  total_files_processed :: nat
  bulk_warnings :: "string list"
  bulk_errors :: "string list"

definition new_bulk_processor :: bulk_processor where
  "new_bulk_processor =
     \<lparr>processed_files = [], failed_files = [], total_stocks = 0, total_candlesticks = 0,
      total_files_processed = 0, bulk_warnings = [], bulk_errors = []\<rparr>"

text \<open>
  The dictionary \<open>process_zip_file\<close> returns; the one for an archive without CSV files
  has no key \<open>total_files_failed\<close>.
\<close>

record bulk_result =
  bulk_success :: bool
  bulk_error :: "string option"
  res_processed_files :: "processed_file list"
  res_failed_files :: "failed_file list"
  res_total_files_processed :: nat
  res_total_files_failed :: "nat option"
  res_total_stocks :: nat
  res_total_candlesticks :: nat
  res_warnings :: "string list"
  res_errors :: "string list"

definition is_csv_candidate :: "string \<Rightarrow> bool" where
  \<comment> \<open>\<open>file.lower().endswith('.csv') and not file.startswith('.')\<close>\<close>
  "is_csv_candidate file = (endswith (py_lower file) ''.csv'' \<and> \<not> startswith file ''.'')"

text \<open>
  \<open>BulkCSVProcessor._process_single_file\<close>.  Reading \<open>result['date']\<close> of a successful
  result cannot fail, since \<open>process_csv_file\<close> sets the key; the \<open>KeyError\<close> branch is
  there because the key is optional in the record.
\<close>

definition process_single_file ::
  "registry \<Rightarrow> string \<times> (exn + string list list) \<Rightarrow> db \<times> bulk_processor
    \<Rightarrow> exn option \<times> (db \<times> bulk_processor)" where
  "process_single_file reg = (\<lambda>(filename, file) (d, b).
     case process_csv_file reg d file filename of
       (res, d1) \<Rightarrow>
         if success res then
           (case (result_date res, result_exchange res) of
              (Some dt, Some ex) \<Rightarrow>
                (None,
                 (CsvFile_create
                    \<lparr>cf_filename = filename, cf_date = dt, cf_exchange = ex,
                     cf_stocks_processed = stocks_processed res,
                     cf_candlesticks_processed = candlesticks_processed res\<rparr> d1,
                  b\<lparr>total_stocks := total_stocks b + stocks_processed res,
                    total_candlesticks := total_candlesticks b + candlesticks_processed res,
                    total_files_processed := total_files_processed b + 1,
                    processed_files := processed_files b @
                      [\<lparr>pf_filename = filename, pf_date = dt, pf_exchange = ex,
                        pf_stocks_processed = stocks_processed res,
                        pf_candlesticks_processed = candlesticks_processed res,
                        pf_warnings = result_warnings res\<rparr>],
                    bulk_warnings := bulk_warnings b @
                      map (\<lambda>w. filename @ '': '' @ w) (take 3 (result_warnings res))\<rparr>))
            | _ \<Rightarrow> (Some (KeyError (quoted ''date'')), (d1, b)))
         else
           (let err = (case error res of None \<Rightarrow> ''Unknown error'' | Some m \<Rightarrow> m)
            in (None,
                (d1,
                 b\<lparr>failed_files := failed_files b @
                     [\<lparr>ff_filename = filename, ff_error = err,
                       ff_stocks_processed = stocks_processed res,
                       ff_candlesticks_processed = candlesticks_processed res\<rparr>],
                   bulk_errors := bulk_errors b @ [filename @ '': '' @ err] @
                     map (\<lambda>e. filename @ '': '' @ e) (take 3 (result_errors res))\<rparr>))))"

text \<open>The loop over the CSV files: an exception of a file is recorded and the loop goes on.\<close>

fun process_files ::
  "registry \<Rightarrow> (string \<times> (exn + string list list)) list \<Rightarrow> db \<times> bulk_processor
    \<Rightarrow> db \<times> bulk_processor" where
  "process_files reg [] s = s"
| "process_files reg (f # fs) s =
     (case process_single_file reg f s of
        (None, s') \<Rightarrow> process_files reg fs s'
      | (Some e, (d, b)) \<Rightarrow>
          process_files reg fs
            (d, b\<lparr>failed_files := failed_files b @
                    [\<lparr>ff_filename = fst f, ff_error = str_exn e,
                      ff_stocks_processed = 0, ff_candlesticks_processed = 0\<rparr>],
                  bulk_errors := bulk_errors b @
                    [''Failed to process '' @ fst f @ '': '' @ str_exn e]\<rparr>))"

definition process_zip_file :: "registry \<Rightarrow> db \<Rightarrow> zip_upload \<Rightarrow> bulk_result \<times> db" where
  "process_zip_file reg d z =
     (let b = new_bulk_processor
      in case zip_contents z of
           Inl e \<Rightarrow>
             (\<lparr>bulk_success = False,
               bulk_error = Some (''Failed to process ZIP file '' @ zip_name z @ '': '' @ str_exn e),
               res_processed_files = processed_files b, res_failed_files = failed_files b,
               res_total_files_processed = total_files_processed b,
               res_total_files_failed = Some (length (failed_files b)),
               res_total_stocks = total_stocks b, res_total_candlesticks = total_candlesticks b,
               res_warnings = bulk_warnings b,
               res_errors = bulk_errors b @ [''ZIP processing error: '' @ str_exn e]\<rparr>, d)
         | Inr files \<Rightarrow>
             (let csv_files = filter (\<lambda>(file, content). is_csv_candidate file) files
              in if csv_files = []
                 then
                   (\<lparr>bulk_success = False,
                     bulk_error = Some (''No CSV files found in ZIP archive: '' @ zip_name z),
                     res_processed_files = [], res_failed_files = [],
                     res_total_files_processed = 0, res_total_files_failed = None,
                     res_total_stocks = 0, res_total_candlesticks = 0,
                     res_warnings = [], res_errors = [''No CSV files found in ZIP archive'']\<rparr>, d)
                 else
                   (case process_files reg csv_files (d, b) of
                      (d', b') \<Rightarrow>
                        (\<lparr>bulk_success = True, bulk_error = None,
                          res_processed_files = processed_files b',
                          res_failed_files = failed_files b',
                          res_total_files_processed = total_files_processed b',
                          res_total_files_failed = Some (length (failed_files b')),
                          res_total_stocks = total_stocks b',
                          res_total_candlesticks = total_candlesticks b',
                          res_warnings = bulk_warnings b', res_errors = bulk_errors b'\<rparr>, d'))))"

section \<open>The manual-entry form\<close>

text \<open>
  \<open>CandlestickForm.clean\<close> of \<open>stock_forms.py\<close>.  The cleaned data hold a finite decimal
  for each price that passed its field validation and \<open>None\<close> for the others.
  \<open>all([...])\<close> tests truth: a price counts only when it is present and not zero.
  \<open>instance_pk\<close> is the row being edited, if any.
\<close>

record cleaned_data =
  cd_stock :: "stock_key option"
  cd_candle_date :: "datetime option"
  cd_open_price :: "rat option"
  cd_high_price :: "rat option"
  cd_low_price :: "rat option"
  cd_close_price :: "rat option"

datatype validation_error = ValidationError string

definition truthy :: "rat option \<Rightarrow> bool" where
  "truthy x = (case x of None \<Rightarrow> False | Some v \<Rightarrow> v \<noteq> 0)"

definition price_relationship_error :: "cleaned_data \<Rightarrow> validation_error option" where
  "price_relationship_error cd =
     (case (cd_open_price cd, cd_high_price cd, cd_low_price cd, cd_close_price cd) of
        (Some op, Some hp, Some lp, Some cp) \<Rightarrow>
          if truthy (Some op) \<and> truthy (Some hp) \<and> truthy (Some lp) \<and> truthy (Some cp) then
            (if hp < max op (max lp cp)
             then Some (ValidationError ''High price must be greater than or equal to all other prices.'')
             else if lp > min op (min hp cp)
             then Some (ValidationError ''Low price must be less than or equal to all other prices.'')
             else None)
          else None
      | _ \<Rightarrow> None)"

definition CandlestickForm_clean ::
  "db \<Rightarrow> candle_key option \<Rightarrow> cleaned_data \<Rightarrow> validation_error + cleaned_data" where
  "CandlestickForm_clean d instance_pk cd =
     (case price_relationship_error cd of
        Some e \<Rightarrow> Inl e
      | None \<Rightarrow>
          (case (cd_stock cd, cd_candle_date cd) of
             (Some st, Some dt) \<Rightarrow>
               if candlesticks d (st, dt) \<noteq> None \<and> instance_pk \<noteq> Some (st, dt)
               then Inl (ValidationError (''Candlestick data for '' @ fst st @ '' on ''
                           @ str_date (fst dt) @ '' already exists.''))
               else Inr cd
           | _ \<Rightarrow> Inr cd))"

section \<open>The file-name pattern\<close>

text \<open>
  The upload form (\<open>forms.py\<close>) accepts a name when it matches
  \<^verbatim>\<open>^(\d{8})_([A-Z]+)\.csv$\<close> with \<open>re.IGNORECASE\<close>: eight digits, an underscore, one or
  more letters and the extension in any letter case; \<^verbatim>\<open>$\<close> also matches before one final
  newline.
\<close>

definition is_alpha :: "char \<Rightarrow> bool" where
  "is_alpha c = (let n = (of_char c :: nat) in (65 \<le> n \<and> n \<le> 90) \<or> (97 \<le> n \<and> n \<le> 122))"

definition matches_body :: "string \<Rightarrow> bool" where
  "matches_body s =
     (let n = length s
      in 14 \<le> n \<and> list_all is_digit (take 8 s) \<and> s ! 8 = CHR ''_'' \<and>
         list_all is_alpha (take (n - 13) (drop 9 s)) \<and> py_lower (drop (n - 4) s) = ''.csv'')"

definition filename_pattern_match :: "string \<Rightarrow> bool" where
  "filename_pattern_match s =
     (matches_body s \<or> (s \<noteq> [] \<and> last s = CHR 0x0A \<and> matches_body (butlast s)))"

text \<open>
  The canonical name of a date: \<open>YYYYMMDD\<close>, zero padded.  A name is malformed, in the
  words of the specification, when it does not split into exactly two parts at the
  underscores after the extension is stripped, when the date part has not 8 characters
  or is not a calendar date, when the exchange part is empty or longer than 10
  characters, or when the upper-cased exchange is not registered.
\<close>

definition date_str :: "nat \<Rightarrow> nat \<Rightarrow> nat \<Rightarrow> string" where
  "date_str y m d = pad_nat 4 y @ pad_nat 2 m @ pad_nat 2 d"


section \<open>Notions used to state the properties of the engine\<close>

text \<open>
  Reading a row does not depend on the warnings collected so far: it returns the same
  result and appends the same warnings (\<open>uniform\<close>).  So a row has a result, the
  exception it raises or the values it yields, and a list of warnings of its own.  A row
  is accepted when reading it raises nothing.  \<open>expected_errors\<close> lists the error
  entries of the rows of a file, \<open>core\<close> is the part of the state that the counters and
  the database make up, \<open>seen\<close> says that the stock and the candlestick of a row are in
  the database, and \<open>rerun_warnings\<close> lists the warnings of a run over rows that are all
  seen.
\<close>

definition uniform :: "(string list \<Rightarrow> 'a \<times> string list) \<Rightarrow> bool" where
  "uniform m = (\<forall>w. m w = (fst (m []), w @ snd (m [])))"

definition row_result :: "column_mapping \<Rightarrow> string \<Rightarrow> csv_row \<Rightarrow> exn + (string \<times> stock \<times> candlestick)" where
  "row_result csv_columns exchange row = fst (read_row csv_columns row exchange [])"

definition row_warnings :: "column_mapping \<Rightarrow> string \<Rightarrow> csv_row \<Rightarrow> string list" where
  "row_warnings csv_columns exchange row = snd (read_row csv_columns row exchange [])"

definition accepted :: "column_mapping \<Rightarrow> string \<Rightarrow> csv_row \<Rightarrow> bool" where
  "accepted csv_columns exchange row = (\<exists>v. row_result csv_columns exchange row = Inr v)"

fun expected_errors :: "column_mapping \<Rightarrow> string \<Rightarrow> nat \<Rightarrow> csv_row list \<Rightarrow> string list" where
  "expected_errors csv_columns exchange n [] = []"
| "expected_errors csv_columns exchange n (row # rows) =
     (case row_result csv_columns exchange row of
        Inl e \<Rightarrow> [''Row '' @ str_nat (n + 1) @ '': '' @ str_exn e]
      | Inr _ \<Rightarrow> []) @ expected_errors csv_columns exchange (n + 1) rows"

definition core :: "engine_state \<Rightarrow> db \<times> nat \<times> nat" where
  "core s = (fst s, processed_stocks (snd s), processed_candlesticks (snd s))"

definition duplicate_warning :: "string \<Rightarrow> date \<Rightarrow> string" where
  "duplicate_warning stock_symbol candle_date =
     ''Duplicate candlestick data for '' @ stock_symbol @ '' on '' @ str_date candle_date @ '' - skipped''"

definition seen :: "column_mapping \<Rightarrow> string \<Rightarrow> date \<Rightarrow> db \<Rightarrow> csv_row \<Rightarrow> bool" where
  "seen csv_columns exchange candle_date d row =
     (case row_result csv_columns exchange row of
        Inl _ \<Rightarrow> True
      | Inr (smb, _, _) \<Rightarrow>
          stocks d (smb, exchange) \<noteq> None \<and>
          candlesticks d ((smb, exchange), (candle_date, 0)) \<noteq> None)"

definition rerun_warnings :: "column_mapping \<Rightarrow> string \<Rightarrow> date \<Rightarrow> csv_row list \<Rightarrow> string list" where
  "rerun_warnings csv_columns exchange candle_date rows =
     concat (map (\<lambda>row. row_warnings csv_columns exchange row @
                        (case row_result csv_columns exchange row of
                           Inl _ \<Rightarrow> []
                         | Inr (smb, _, _) \<Rightarrow> [duplicate_warning smb candle_date])) rows)"

definition warns_invalid :: "(string list \<Rightarrow> 'a \<times> string list) \<Rightarrow> bool" where
  "warns_invalid m = (\<forall>w. (\<forall>x\<in>set w. prefix ''Invalid '' x) \<longrightarrow> (\<forall>x\<in>set (snd (m w)). prefix ''Invalid '' x))"

section \<open>Properties of the string functions\<close>

declare str_nat.simps [simp del]



lemma no_straddle:
  assumes old: "old = p # ps" and fresh: "p \<notin> set ps"
    and nsub: "\<not> sublist old (c # cs)"
  shows "\<not> prefix old ((c # cs) @ old @ b)"
proof
  assume pf: "prefix old ((c # cs) @ old @ b)"
  have np: "\<not> prefix old (c # cs)"
    using nsub by (auto simp: sublist_Cons_right)
  with pf obtain us where us: "old = (c # cs) @ us" "prefix us (old @ b)"
    unfolding prefix_append by blast
  from us(1) np have "us \<noteq> []" by auto
  then obtain u us' where u: "us = u # us'" by (cases us) auto
  with us(2) old have "u = p" by simp
  with us(1) u old have "ps = cs @ p # us'" by simp
  with fresh show False by simp
qed

lemma py_replace_occurrence:
  assumes old: "old = p # ps" and fresh: "p \<notin> set ps"
    and nsub: "\<not> sublist old a"
  shows "py_replace old new (a @ old @ b) = a @ new @ py_replace old new b"
  using nsub
proof (induction a)
  case Nil
  have "py_replace old new (old @ b) = new @ py_replace old new (drop (length old) (old @ b))"
    using old by (cases "old @ b") (simp_all del: drop_append)
  then show ?case by simp
next
  case (Cons c cs)
  have np: "\<not> prefix old ((c # cs) @ old @ b)"
    using no_straddle[OF old fresh Cons.prems] .
  have "\<not> sublist old cs"
    using Cons.prems by (auto simp: sublist_Cons_right)
  then have IH: "py_replace old new (cs @ old @ b) = cs @ new @ py_replace old new b"
    by (rule Cons.IH)
  have "py_replace old new (c # (cs @ old @ b)) = c # py_replace old new (cs @ old @ b)"
    using np by (simp del: prefix_code)
  with IH show ?case by simp
qed




lemma digit_char_0: "n < 10 \<Longrightarrow> digit_char (n div 10) = CHR ''0''"
  by (simp add: digit_char_def)
















section \<open>Properties of the filename parser\<close>














text \<open>
  C9: the extension is stripped in lower case and in upper case only.  The upload form
  and the archive walk accept \<open>20250101_BSE.Csv\<close>, since they compare in lower case; the
  parser keeps the extension in the exchange part and raises.
\<close>

theorem parse_filename_mixed_case_extension:
  "filename_pattern_match ''20250101_BSE.Csv'' \<and> is_csv_candidate ''20250101_BSE.Csv'' \<and>
   parse_filename initial_registry ''20250101_BSE.Csv''
     = Inl (ValueError (''Error parsing filename '' @ quoted ''20250101_BSE.Csv''
          @ '': Unsupported exchange '' @ quoted ''BSE.CSV'' @ ''. Supported exchanges: BSE, NSE'')) \<and>
   parse_filename initial_registry ''20250101_BSE.csv''
     = Inr (\<lparr>year = 2025, month = 1, day = 1\<rparr>, ''BSE'') \<and>
   parse_filename initial_registry ''20250101_BSE.CSV''
     = Inr (\<lparr>year = 2025, month = 1, day = 1\<rparr>, ''BSE'')"
proof -
  have "filename_pattern_match ''20250101_BSE.Csv''" by code_simp
  moreover have "is_csv_candidate ''20250101_BSE.Csv''" by code_simp
  moreover have "parse_filename initial_registry ''20250101_BSE.Csv''
     = Inl (ValueError (''Error parsing filename '' @ quoted ''20250101_BSE.Csv''
          @ '': Unsupported exchange '' @ quoted ''BSE.CSV'' @ ''. Supported exchanges: BSE, NSE''))"
    by code_simp
  moreover have "parse_filename initial_registry ''20250101_BSE.csv''
     = Inr (\<lparr>year = 2025, month = 1, day = 1\<rparr>, ''BSE'')" by code_simp
  moreover have "parse_filename initial_registry ''20250101_BSE.CSV''
     = Inr (\<lparr>year = 2025, month = 1, day = 1\<rparr>, ''BSE'')" by code_simp
  ultimately show ?thesis by blast
qed

text \<open>
  C10: \<open>replace\<close> removes the extension wherever it occurs: behind any text without an
  occurrence, one is removed and the rest is treated in the same way.  So names that the
  pattern \<open>YYYYMMDD_EXCHANGE.csv\<close> does not match are parsed with success: one with a
  doubled extension and one with the extension inside the date and inside the exchange.
\<close>

theorem strip_extension_removes_every_occurrence:
  "(\<not> sublist ''.csv'' a \<longrightarrow>
      py_replace ''.csv'' [] (a @ ''.csv'' @ b) = a @ py_replace ''.csv'' [] b)
   \<and> (\<not> sublist ''.CSV'' a \<longrightarrow>
      py_replace ''.CSV'' [] (a @ ''.CSV'' @ b) = a @ py_replace ''.CSV'' [] b)
   \<and> \<not> filename_pattern_match ''20250101_BSE.csv.csv''
   \<and> parse_filename initial_registry ''20250101_BSE.csv.csv''
       = Inr (\<lparr>year = 2025, month = 1, day = 1\<rparr>, ''BSE'')
   \<and> \<not> filename_pattern_match ''2025.csv0101_B.CSVSE''
   \<and> parse_filename initial_registry ''2025.csv0101_B.CSVSE''
       = Inr (\<lparr>year = 2025, month = 1, day = 1\<rparr>, ''BSE'')"
proof -
  have 1: "\<not> sublist ''.csv'' a \<longrightarrow>
      py_replace ''.csv'' [] (a @ ''.csv'' @ b) = a @ py_replace ''.csv'' [] b"
    using py_replace_occurrence[of "''.csv''" "CHR ''.''" "''csv''" a "[]" b] by simp
  have 2: "\<not> sublist ''.CSV'' a \<longrightarrow>
      py_replace ''.CSV'' [] (a @ ''.CSV'' @ b) = a @ py_replace ''.CSV'' [] b"
    using py_replace_occurrence[of "''.CSV''" "CHR ''.''" "''CSV''" a "[]" b] by simp
  have 3: "\<not> filename_pattern_match ''20250101_BSE.csv.csv''" by code_simp
  have 4: "parse_filename initial_registry ''20250101_BSE.csv.csv''
       = Inr (\<lparr>year = 2025, month = 1, day = 1\<rparr>, ''BSE'')" by code_simp
  have 5: "\<not> filename_pattern_match ''2025.csv0101_B.CSVSE''" by code_simp
  have 6: "parse_filename initial_registry ''2025.csv0101_B.CSVSE''
       = Inr (\<lparr>year = 2025, month = 1, day = 1\<rparr>, ''BSE'')" by code_simp
  from 1 2 3 4 5 6 show ?thesis by blast
qed

theorem strip_extension_removes_every_occurrence_witness:
  "\<not> sublist ''.csv'' ''20250101_BSE'' \<and>
   py_replace ''.csv'' [] (''20250101_BSE'' @ ''.csv'' @ ''.csv'')
     = ''20250101_BSE'' @ py_replace ''.csv'' [] ''.csv'' \<and>
   \<not> sublist ''.CSV'' ''2025'' \<and>
   py_replace ''.CSV'' [] (''2025'' @ ''.CSV'' @ ''0101_BSE'')
     = ''2025'' @ py_replace ''.CSV'' [] ''0101_BSE''"
proof -
  have h1: "\<not> sublist ''.csv'' ''20250101_BSE''" by (simp add: sublist_Cons_right)
  have h2: "\<not> sublist ''.CSV'' ''2025''" by (simp add: sublist_Cons_right)
  from strip_extension_removes_every_occurrence[of "''20250101_BSE''" "''.csv''"] h1
  have a: "py_replace ''.csv'' [] (''20250101_BSE'' @ ''.csv'' @ ''.csv'')
     = ''20250101_BSE'' @ py_replace ''.csv'' [] ''.csv''" by blast
  from strip_extension_removes_every_occurrence[of "''2025''" "''0101_BSE''"] h2
  have b: "py_replace ''.CSV'' [] (''2025'' @ ''.CSV'' @ ''0101_BSE'')
     = ''2025'' @ py_replace ''.CSV'' [] ''0101_BSE''" by blast
  from h1 h2 a b show ?thesis by blast
qed

lemma validate_decimal_blank:
  "py_strip v = [] \<Longrightarrow> validate_decimal v f w = (None, w)"
  by (simp add: validate_decimal_def)

lemma py_strip_Nil: "py_strip [] = []"
  by (simp add: py_strip_def)

lemma validate_decimal_parsed:
  "py_strip v \<noteq> [] \<Longrightarrow> py_decimal (py_strip v) = Some x \<Longrightarrow> validate_decimal v f w = (Some x, w)"
  by (auto simp: validate_decimal_def py_strip_Nil)

lemma validate_decimal_invalid:
  "py_strip v \<noteq> [] \<Longrightarrow> py_decimal (py_strip v) = None \<Longrightarrow>
   validate_decimal v f w =
     (None, w @ [''Invalid decimal value for '' @ f @ '': '' @ quoted v @ '' - skipping row''])"
  by (auto simp: validate_decimal_def py_strip_Nil)

lemma validate_integer_blank:
  "py_strip v = [] \<Longrightarrow> validate_integer v f w = Inr (None, w)"
  by (simp add: validate_integer_def)

lemma validate_integer_finite:
  "py_strip v \<noteq> [] \<Longrightarrow> py_float (py_strip v) = Some (Finite r) \<Longrightarrow>
   validate_integer v f w = Inr (Some (if 0 \<le> r then \<lfloor>r\<rfloor> else \<lceil>r\<rceil>), w)"
  by (auto simp: validate_integer_def py_strip_Nil int_of_float_def)

lemma validate_integer_invalid:
  "py_strip v \<noteq> [] \<Longrightarrow> py_float (py_strip v) = None \<or> py_float (py_strip v) = Some NaN \<Longrightarrow>
   validate_integer v f w =
     Inr (None, w @ [''Invalid integer value for '' @ f @ '': '' @ quoted v @ '' - using None''])"
  by (auto simp: validate_integer_def py_strip_Nil int_of_float_def)

lemma validate_integer_infinite:
  "py_strip v \<noteq> [] \<Longrightarrow> py_float (py_strip v) = Some PosInf \<or> py_float (py_strip v) = Some NegInf \<Longrightarrow>
   validate_integer v f w = Inl (OverflowError ''cannot convert float infinity to integer'')"
  by (auto simp: validate_integer_def py_strip_Nil int_of_float_def)

lemma uniform_pure: "uniform (pure r)"
  by (simp add: uniform_def pure_def)

lemma uniform_then_do:
  assumes "uniform m" and "\<And>a. uniform (f a)"
  shows "uniform (then_do m f)"
proof -
  obtain x0 s0 where m0: "m [] = (x0, s0)" by (cases "m []")
  { fix w
    have "m w = (fst (m []), w @ snd (m []))" using assms(1) unfolding uniform_def by blast
    then have m: "m w = (x0, w @ s0)" by (simp add: m0)
    have "then_do m f w = (fst (then_do m f []), w @ snd (then_do m f []))"
    proof (cases x0)
      case (Inl e)
      with m m0 show ?thesis by (simp add: then_do_def)
    next
      case (Inr a)
      obtain y0 t0 where f0: "f a [] = (y0, t0)" by (cases "f a []")
      have fa: "\<And>v. f a v = (y0, v @ t0)"
        using assms(2)[of a] unfolding uniform_def by (simp add: f0)
      show ?thesis using m m0 Inr by (simp add: then_do_def fa)
    qed }
  then show ?thesis unfolding uniform_def by blast
qed

lemma uniform_validate_decimal:
  "uniform (\<lambda>w. case validate_decimal v f w of (r, w') \<Rightarrow> (Inr r :: exn + decimal option, w'))"
  by (simp add: uniform_def validate_decimal_def split: option.splits)

lemma uniform_validate_integer:
  "uniform (\<lambda>w. case validate_integer v f w of
                  Inl e \<Rightarrow> (Inl e :: exn + int option, w)
                | Inr (r, w') \<Rightarrow> (Inr r, w'))"
  by (simp add: uniform_def validate_integer_def Let_def split: option.splits sum.splits exn.splits)

lemma uniform_mapped_decimal: "uniform (mapped_decimal cols row fld name)"
  unfolding mapped_decimal_def
  by (intro uniform_then_do uniform_pure uniform_validate_decimal)

lemma uniform_mapped_integer: "uniform (mapped_integer cols row fld name)"
  unfolding mapped_integer_def
  by (intro uniform_then_do uniform_pure uniform_validate_integer)

lemma uniform_read_row: "uniform (read_row cols row ex)"
  unfolding read_row_def
  by (intro uniform_then_do uniform_pure uniform_mapped_decimal uniform_mapped_integer)

lemma read_row_eq:
  "read_row cols row ex w = (row_result cols ex row, w @ row_warnings cols ex row)"
  using uniform_read_row[of cols row ex]
  unfolding uniform_def row_result_def row_warnings_def by blast

lemma process_row_eq:
  "process_row cols row dt ex (d, p) =
     (case row_result cols ex row of
        Inl e \<Rightarrow> (Some e, (d, p\<lparr>warnings := warnings p @ row_warnings cols ex row\<rparr>))
      | Inr (smb, sd, cd) \<Rightarrow>
          (None, store_row smb ex sd dt cd (d, p\<lparr>warnings := warnings p @ row_warnings cols ex row\<rparr>)))"
  by (simp add: process_row_def read_row_eq split: sum.splits)

lemma accepted_cases:
  "accepted cols ex row \<or> (\<exists>e. row_result cols ex row = Inl e)"
  by (cases "row_result cols ex row") (auto simp: accepted_def)

lemma process_rows_errors:
  "errors (snd (process_rows cols dt ex n rows (d, p))) = errors p @ expected_errors cols ex n rows"
proof (induction rows arbitrary: d p n)
  case Nil
  show ?case by simp
next
  case (Cons row rows)
  show ?case
  proof (cases "row_result cols ex row")
    case (Inl e)
    then show ?thesis
      using Cons.IH by (simp add: process_row_eq)
  next
    case (Inr v)
    obtain smb sd cd where v: "v = (smb, sd, cd)" using prod_cases3 by blast
    obtain d' p' where st: "store_row smb ex sd dt cd (d, p\<lparr>warnings := warnings p @ row_warnings cols ex row\<rparr>) = (d', p')"
      by (cases "store_row smb ex sd dt cd (d, p\<lparr>warnings := warnings p @ row_warnings cols ex row\<rparr>)")
    have "errors p' = errors p"
      using st by (auto simp: store_row_def Stock_get_or_create_def Candlestick_get_or_create_def Let_def
          split: option.splits if_splits)
    then show ?thesis
      using Cons.IH[where d=d' and p=p' and n="n + 1"] Inr v st by (simp add: process_row_eq)
  qed
qed

lemma length_expected_errors:
  "length (expected_errors cols ex n rows) = length (filter (\<lambda>r. \<not> accepted cols ex r) rows)"
  by (induction rows arbitrary: n) (auto simp: accepted_def split: sum.splits)

lemma store_row_core:
  assumes "core s = core s'"
  shows "core (store_row smb ex sd dt cd s) = core (store_row smb ex sd dt cd s')"
proof -
  obtain d p where s: "s = (d, p)" by (cases s)
  obtain d' p' where s': "s' = (d', p')" by (cases s')
  from assms s s' have "d = d'" "processed_stocks p = processed_stocks p'"
    "processed_candlesticks p = processed_candlesticks p'" by (simp_all add: core_def)
  then show ?thesis
    unfolding s s'
    by (simp add: core_def store_row_def Stock_get_or_create_def Candlestick_get_or_create_def Let_def
        split: option.splits)
qed

lemma core_warnings_errors:
  "core (d, p\<lparr>warnings := w\<rparr>) = core (d, p)" "core (d, p\<lparr>errors := e\<rparr>) = core (d, p)"
  by (simp_all add: core_def)

lemma process_rows_core:
  assumes "core s = core s'"
  shows "core (process_rows cols dt ex n rows s)
       = core (process_rows cols dt ex m (filter (accepted cols ex) rows) s')"
  using assms
proof (induction rows arbitrary: s s' n m)
  case Nil
  then show ?case by simp
next
  case (Cons row rows)
  obtain d p where s: "s = (d, p)" by (cases s)
  obtain d' p' where s': "s' = (d', p')" by (cases s')
  show ?case
  proof (cases "row_result cols ex row")
    case (Inl e)
    then have na: "\<not> accepted cols ex row" unfolding accepted_def by simp
    have "core (d, p\<lparr>warnings := warnings p @ row_warnings cols ex row,
                     errors := errors p @ [''Row '' @ str_nat (n + 1) @ '': '' @ str_exn e]\<rparr>) = core s'"
      using Cons.prems s by (simp add: core_def)
    from Cons.IH[OF this, where n="n + 1" and m=m] show ?thesis
      using Inl na s by (simp add: process_row_eq)
  next
    case (Inr v)
    obtain smb sd cd where v: "v = (smb, sd, cd)" using prod_cases3 by blast
    from Inr have a: "accepted cols ex row" unfolding accepted_def by blast
    have "core (d, p\<lparr>warnings := warnings p @ row_warnings cols ex row\<rparr>)
        = core (d', p'\<lparr>warnings := warnings p' @ row_warnings cols ex row\<rparr>)"
      using Cons.prems s s' by (simp add: core_def)
    then have "core (store_row smb ex sd dt cd (d, p\<lparr>warnings := warnings p @ row_warnings cols ex row\<rparr>))
        = core (store_row smb ex sd dt cd (d', p'\<lparr>warnings := warnings p' @ row_warnings cols ex row\<rparr>))"
      by (rule store_row_core)
    from Cons.IH[OF this, where n="n + 1" and m="m + 1"] show ?thesis
      using Inr v a s s' by (simp add: process_row_eq)
  qed
qed

lemma store_row_present:
  assumes "store_row smb ex sd dt cd (d, p) = (d', p')"
  shows "stocks d' (smb, ex) \<noteq> None" and "candlesticks d' ((smb, ex), (dt, 0)) \<noteq> None"
  using assms
  by (auto simp: store_row_def Stock_get_or_create_def Candlestick_get_or_create_def Let_def
      split: option.splits if_splits)

lemma store_row_grows:
  assumes "store_row smb ex sd dt cd (d, p) = (d', p')"
  shows "stocks d k \<noteq> None \<longrightarrow> stocks d' k = stocks d k"
    and "candlesticks d c \<noteq> None \<longrightarrow> candlesticks d' c = candlesticks d c"
    and "csv_files d' = csv_files d"
  using assms
  by (auto simp: store_row_def Stock_get_or_create_def Candlestick_get_or_create_def Let_def
      split: option.splits if_splits)

lemma store_row_noop:
  assumes "stocks d (smb, ex) \<noteq> None" and "candlesticks d ((smb, ex), (dt, 0)) \<noteq> None"
  shows "store_row smb ex sd dt cd (d, p) = (d, p\<lparr>warnings := warnings p @ [duplicate_warning smb dt]\<rparr>)"
  using assms
  by (auto simp: store_row_def Stock_get_or_create_def Candlestick_get_or_create_def Let_def
      duplicate_warning_def)

lemma process_row_grows:
  assumes "process_row cols row dt ex (d, p) = (r, (d', p'))"
  shows "stocks d k \<noteq> None \<longrightarrow> stocks d' k = stocks d k"
    and "candlesticks d c \<noteq> None \<longrightarrow> candlesticks d' c = candlesticks d c"
    and "csv_files d' = csv_files d"
proof -
  have "(stocks d k \<noteq> None \<longrightarrow> stocks d' k = stocks d k) \<and>
        (candlesticks d c \<noteq> None \<longrightarrow> candlesticks d' c = candlesticks d c) \<and>
        csv_files d' = csv_files d"
  proof (cases "row_result cols ex row")
    case (Inl e)
    with assms have "d' = d" by (simp add: process_row_eq)
    then show ?thesis by simp
  next
    case (Inr v)
    obtain smb sd cd where v: "v = (smb, sd, cd)" using prod_cases3 by blast
    from assms Inr v
    have st: "store_row smb ex sd dt cd (d, p\<lparr>warnings := warnings p @ row_warnings cols ex row\<rparr>) = (d', p')"
      by (simp add: process_row_eq)
    from store_row_grows[OF st] show ?thesis by blast
  qed
  then show "stocks d k \<noteq> None \<longrightarrow> stocks d' k = stocks d k"
    and "candlesticks d c \<noteq> None \<longrightarrow> candlesticks d' c = candlesticks d c"
    and "csv_files d' = csv_files d" by blast+
qed

lemma process_rows_grows:
  assumes "process_rows cols dt ex n rows (d, p) = (d', p')"
  shows "(stocks d k \<noteq> None \<longrightarrow> stocks d' k = stocks d k) \<and>
         (candlesticks d c \<noteq> None \<longrightarrow> candlesticks d' c = candlesticks d c) \<and>
         csv_files d' = csv_files d"
  using assms
proof (induction rows arbitrary: d p n)
  case Nil
  then show ?case by simp
next
  case (Cons row rows)
  obtain r d1 p1 where pr: "process_row cols row dt ex (d, p) = (r, (d1, p1))"
    by (cases "process_row cols row dt ex (d, p)") auto
  note g = process_row_grows[OF pr]
  show ?case
  proof (cases r)
    case None
    with Cons.prems pr have "process_rows cols dt ex (n + 1) rows (d1, p1) = (d', p')" by simp
    from Cons.IH[OF this] g show ?thesis by auto
  next
    case (Some e)
    with Cons.prems pr have "process_rows cols dt ex (n + 1) rows
        (d1, p1\<lparr>errors := errors p1 @ [''Row '' @ str_nat (n + 1) @ '': '' @ str_exn e]\<rparr>) = (d', p')"
      by simp
    from Cons.IH[OF this] g show ?thesis by auto
  qed
qed

lemma seen_grows:
  assumes "seen cols ex dt d row"
    and "\<And>k. stocks d k \<noteq> None \<longrightarrow> stocks d' k = stocks d k"
    and "\<And>c. candlesticks d c \<noteq> None \<longrightarrow> candlesticks d' c = candlesticks d c"
  shows "seen cols ex dt d' row"
  using assms unfolding seen_def
  by (auto split: sum.splits)

lemma process_row_seen:
  assumes "process_row cols row dt ex (d, p) = (r, (d', p'))"
  shows "seen cols ex dt d' row"
proof (cases "row_result cols ex row")
  case (Inl e)
  then show ?thesis by (simp add: seen_def)
next
  case (Inr v)
  obtain smb sd cd where v: "v = (smb, sd, cd)" using prod_cases3 by blast
  from assms Inr v have "store_row smb ex sd dt cd (d, p\<lparr>warnings := warnings p @ row_warnings cols ex row\<rparr>) = (d', p')"
    by (simp add: process_row_eq)
  from store_row_present[OF this] show ?thesis
    using Inr v by (simp add: seen_def)
qed

lemma first_run_seen:
  assumes "process_rows cols dt ex n rows (d, p) = (d', p')"
  shows "\<forall>row\<in>set rows. seen cols ex dt d' row"
  using assms
proof (induction rows arbitrary: d p n)
  case Nil
  then show ?case by simp
next
  case (Cons row rows)
  obtain r d1 p1 where pr: "process_row cols row dt ex (d, p) = (r, (d1, p1))"
    by (cases "process_row cols row dt ex (d, p)") auto
  obtain p2 where rest: "process_rows cols dt ex (n + 1) rows (d1, p2) = (d', p')"
    using Cons.prems pr by (cases r) auto
  have "seen cols ex dt d1 row" using pr by (rule process_row_seen)
  then have "seen cols ex dt d' row"
    using process_rows_grows[OF rest] by (intro seen_grows[of cols ex dt d1 row d']) auto
  moreover have "\<forall>row\<in>set rows. seen cols ex dt d' row"
    using Cons.IH[OF rest] .
  ultimately show ?case by simp
qed

lemma rerun_rows:
  assumes "\<forall>row\<in>set rows. seen cols ex dt d row"
  shows "process_rows cols dt ex n rows (d, p)
       = (d, p\<lparr>errors := errors p @ expected_errors cols ex n rows,
               warnings := warnings p @ rerun_warnings cols ex dt rows\<rparr>)"
  using assms
proof (induction rows arbitrary: p n)
  case Nil
  show ?case by (simp add: rerun_warnings_def)
next
  case (Cons row rows)
  then have sr: "seen cols ex dt d row" and rest: "\<forall>row\<in>set rows. seen cols ex dt d row" by simp_all
  show ?case
  proof (cases "row_result cols ex row")
    case (Inl e)
    then show ?thesis
      using Cons.IH[OF rest] by (simp add: process_row_eq rerun_warnings_def)
  next
    case (Inr v)
    obtain smb sd cd where v: "v = (smb, sd, cd)" using prod_cases3 by blast
    from sr Inr v have "stocks d (smb, ex) \<noteq> None" "candlesticks d ((smb, ex), (dt, 0)) \<noteq> None"
      by (simp_all add: seen_def)
    note no = store_row_noop[OF this]
    show ?thesis
      using Cons.IH[OF rest] Inr v by (simp add: process_row_eq no rerun_warnings_def)
  qed
qed

lemma warns_invalid_pure: "warns_invalid (pure r)"
  by (simp add: warns_invalid_def pure_def)

lemma warns_invalid_then_do:
  assumes "warns_invalid m" and "\<And>a. warns_invalid (f a)"
  shows "warns_invalid (then_do m f)"
  unfolding warns_invalid_def
proof (intro allI impI)
  fix w :: "string list"
  assume w: "\<forall>x\<in>set w. prefix ''Invalid '' x"
  obtain x0 s0 where m0: "m w = (x0, s0)" by (cases "m w")
  have s0: "\<forall>x\<in>set s0. prefix ''Invalid '' x"
    using assms(1) w m0 unfolding warns_invalid_def by (metis snd_conv)
  show "\<forall>x\<in>set (snd (then_do m f w)). prefix ''Invalid '' x"
  proof (cases x0)
    case (Inl e)
    with m0 s0 show ?thesis by (simp add: then_do_def)
  next
    case (Inr a)
    have "\<forall>x\<in>set (snd (f a s0)). prefix ''Invalid '' x"
      using assms(2)[of a] s0 unfolding warns_invalid_def by blast
    with m0 Inr show ?thesis by (simp add: then_do_def)
  qed
qed

lemma warns_invalid_validate_decimal:
  "warns_invalid (\<lambda>w. case validate_decimal v f w of (r, w') \<Rightarrow> (Inr r :: exn + decimal option, w'))"
  by (auto simp: warns_invalid_def validate_decimal_def split: option.splits)

lemma warns_invalid_validate_integer:
  "warns_invalid (\<lambda>w. case validate_integer v f w of
                  Inl e \<Rightarrow> (Inl e :: exn + int option, w)
                | Inr (r, w') \<Rightarrow> (Inr r, w'))"
  by (auto simp: warns_invalid_def validate_integer_def Let_def split: option.splits sum.splits exn.splits)

lemma warns_invalid_read_row: "warns_invalid (read_row cols row ex)"
  unfolding read_row_def mapped_decimal_def mapped_integer_def
  by (intro warns_invalid_then_do warns_invalid_pure warns_invalid_validate_decimal
      warns_invalid_validate_integer)

lemma row_warnings_invalid:
  "\<forall>x\<in>set (row_warnings cols ex row). prefix ''Invalid '' x"
  using warns_invalid_read_row[of cols row ex]
  unfolding warns_invalid_def row_warnings_def by (metis empty_iff empty_set)

lemma filter_duplicate_row_warnings:
  "filter (\<lambda>w. prefix ''Duplicate '' w) (row_warnings cols ex row) = []"
proof -
  { fix x assume "x \<in> set (row_warnings cols ex row)"
    then have "prefix ''Invalid '' x" using row_warnings_invalid by blast
    then have "\<not> prefix ''Duplicate '' x" by (auto simp: prefix_def) }
  then show ?thesis by (simp add: filter_empty_conv)
qed

lemma count_duplicate_warnings:
  "length (filter (\<lambda>w. prefix ''Duplicate '' w) (rerun_warnings cols ex dt rows))
     = length (filter (accepted cols ex) rows)"
proof (induction rows)
  case Nil
  show ?case by (simp add: rerun_warnings_def)
next
  case (Cons row rows)
  have r: "rerun_warnings cols ex dt (row # rows)
      = row_warnings cols ex row @
        (case row_result cols ex row of Inl _ \<Rightarrow> [] | Inr (smb, _, _) \<Rightarrow> [duplicate_warning smb dt])
        @ rerun_warnings cols ex dt rows"
    by (simp add: rerun_warnings_def)
  show ?case
    unfolding r using Cons.IH
    by (auto simp: filter_duplicate_row_warnings accepted_def duplicate_warning_def split: sum.splits)
qed

lemma then_do_InrE:
  assumes "then_do m f s = (Inr r, s')"
  obtains a s1 where "m s = (Inr a, s1)" and "f a s1 = (Inr r, s')"
  using assms by (auto simp: then_do_def split: prod.splits sum.splits)

lemma pure_InrE:
  assumes "pure x s = (Inr a, s')"
  obtains "x = Inr a" and "s' = s"
  using assms by (auto simp: pure_def)

lemma mapped_decimal_Inr:
  assumes "mapped_decimal cols row fld name w = (Inr r, w')"
  shows "\<exists>v. get_mapped_value cols row fld = Inr v \<and> validate_decimal v name w = (r, w')"
  using assms unfolding mapped_decimal_def
  by (auto elim!: then_do_InrE pure_InrE split: prod.splits)

lemma mapped_integer_Inr:
  assumes "mapped_integer cols row fld name w = (Inr r, w')"
  shows "\<exists>v. get_mapped_value cols row fld = Inr v \<and> validate_integer v name w = Inr (r, w')"
  using assms unfolding mapped_integer_def
  by (auto elim!: then_do_InrE pure_InrE split: prod.splits sum.splits)

lemma required_prices_Inr:
  assumes "required_prices a b c d e = Inr (op, hp, lp, cp, pp)"
  shows "a = Some op \<and> b = Some hp \<and> c = Some lp \<and> d = Some cp \<and> e = Some pp"
  using assms by (auto simp: required_prices_def split: option.splits)

lemma validate_decimal_Some:
  assumes "validate_decimal v name w = (Some x, w')"
  shows "py_decimal (py_strip v) = Some x \<and> w' = w"
  using assms by (auto simp: validate_decimal_def split: if_splits option.splits)

lemma read_row_Inr:
  assumes "read_row cols row ex w = (Inr (smb, sd, cd), w')"
  shows "get_mapped_value cols row ''stock_symbol'' = Inr smb \<and> smb \<noteq> [] \<and>
         get_mapped_value cols row ''stock_group'' = Inr (stock_group sd) \<and>
         (if ex = ''NSE'' then stock_name sd = smb
          else get_mapped_value cols row ''stock_name'' = Inr (stock_name sd)) \<and>
         (\<exists>v. get_mapped_value cols row ''open_price'' = Inr v \<and> py_decimal (py_strip v) = Some (open_price cd)) \<and>
         (\<exists>v. get_mapped_value cols row ''high_price'' = Inr v \<and> py_decimal (py_strip v) = Some (high_price cd)) \<and>
         (\<exists>v. get_mapped_value cols row ''low_price'' = Inr v \<and> py_decimal (py_strip v) = Some (low_price cd)) \<and>
         (\<exists>v. get_mapped_value cols row ''close_price'' = Inr v \<and> py_decimal (py_strip v) = Some (close_price cd)) \<and>
         (\<exists>v. get_mapped_value cols row ''prev_close_price'' = Inr v \<and> py_decimal (py_strip v) = Some (prev_close_price cd))"
proof -
  from assms obtain stock_symbol stock_group' stock_name' u w1 opn w2 hi w3 lo w4 cl w5 pc w6
      prices trades w7 shares w8 turnover w9 where
    1: "get_mapped_value cols row ''stock_symbol'' = Inr stock_symbol" and
    2: "get_mapped_value cols row ''stock_group'' = Inr stock_group'" and
    3: "(if ex = ''NSE'' then Inr stock_symbol else get_mapped_value cols row ''stock_name'') = Inr stock_name'" and
    4: "(if stock_symbol = [] then Inl (ValueError (symbol_column cols @ '' (stock symbol) is required'')) else Inr ()) = Inr u" and
    5: "mapped_decimal cols row ''open_price'' ''OPEN'' w1 = (Inr opn, w2)" and
    6: "mapped_decimal cols row ''high_price'' ''HIGH'' w2 = (Inr hi, w3)" and
    7: "mapped_decimal cols row ''low_price'' ''LOW'' w3 = (Inr lo, w4)" and
    8: "mapped_decimal cols row ''close_price'' ''CLOSE'' w4 = (Inr cl, w5)" and
    9: "mapped_decimal cols row ''prev_close_price'' ''PREVCLOSE'' w5 = (Inr pc, w6)" and
    10: "required_prices opn hi lo cl pc = Inr prices" and
    11: "(smb, sd, cd) = (stock_symbol, \<lparr>stock_name = stock_name', stock_group = stock_group'\<rparr>,
          (case prices of (op, hp, lp, cp, pp) \<Rightarrow>
             \<lparr>open_price = op, high_price = hp, low_price = lp, close_price = cp,
              prev_close_price = pp, number_of_trades = trades, number_of_shares = shares,
              net_turnover = turnover\<rparr>))"
    unfolding read_row_def
    by (elim then_do_InrE pure_InrE) (simp (no_asm_use), blast)
  obtain op hp lp cp pp where pr: "prices = (op, hp, lp, cp, pp)" using prod_cases5 by blast
  note rp = required_prices_Inr[OF 10[unfolded pr]]
  from 5 rp obtain v1 where v1: "get_mapped_value cols row ''open_price'' = Inr v1" "validate_decimal v1 ''OPEN'' w1 = (Some op, w2)"
    using mapped_decimal_Inr by blast
  from 6 rp obtain v2 where v2: "get_mapped_value cols row ''high_price'' = Inr v2" "validate_decimal v2 ''HIGH'' w2 = (Some hp, w3)"
    using mapped_decimal_Inr by blast
  from 7 rp obtain v3 where v3: "get_mapped_value cols row ''low_price'' = Inr v3" "validate_decimal v3 ''LOW'' w3 = (Some lp, w4)"
    using mapped_decimal_Inr by blast
  from 8 rp obtain v4 where v4: "get_mapped_value cols row ''close_price'' = Inr v4" "validate_decimal v4 ''CLOSE'' w4 = (Some cp, w5)"
    using mapped_decimal_Inr by blast
  from 9 rp obtain v5 where v5: "get_mapped_value cols row ''prev_close_price'' = Inr v5" "validate_decimal v5 ''PREVCLOSE'' w5 = (Some pp, w6)"
    using mapped_decimal_Inr by blast
  from 11 pr have e: "smb = stock_symbol" "stock_name sd = stock_name'" "stock_group sd = stock_group'"
    "open_price cd = op" "high_price cd = hp" "low_price cd = lp" "close_price cd = cp" "prev_close_price cd = pp"
    by simp_all
  from 4 have ne: "stock_symbol \<noteq> []" by (auto split: if_splits)
  show ?thesis
    using 1 2 3 ne e v1(1) v2(1) v3(1) v4(1) v5(1)
      validate_decimal_Some[OF v1(2)] validate_decimal_Some[OF v2(2)] validate_decimal_Some[OF v3(2)]
      validate_decimal_Some[OF v4(2)] validate_decimal_Some[OF v5(2)]
    by (auto split: if_splits)
qed

end
